theory Spec2Isabelle
  imports Main "HOL-Library.Sublist" "HOL-Library.AList"
begin

section \<open>Python values, exceptions and effects\<close>

text \<open>
  The module \<^verbatim>\<open>app/utils/wrappers.py\<close> wraps handler functions and registers them
  with a server. The values handlers return and the metadata attached to them are
  plain data: \<open>PyObj\<close> is an object that exposes its entries as attributes (such as a
  \<^verbatim>\<open>ToolAnnotations\<close> instance), \<open>PyDict\<close> a dictionary with string keys.
\<close>

datatype pyval =
    PyNone
  | PyBool bool
  | PyStr string
  | PyInt int
  | PyList "pyval list"
  | PyDict "(string \<times> pyval) list"
  | PyObj "(string \<times> pyval) list"

text \<open>
  Exceptions, by the \<^verbatim>\<open>except\<close> clause of \<^verbatim>\<open>handle_api_errors\<close> that is the first to
  match them. The httpx exceptions carry what the clauses read: \<^verbatim>\<open>str(e)\<close>, the text of
  \<^verbatim>\<open>e.request.url\<close>, the texts of \<^verbatim>\<open>e.response.status_code\<close> and
  \<^verbatim>\<open>e.response.reason_phrase\<close>. \<open>PyException cls msg\<close> is any other subclass of
  \<^verbatim>\<open>Exception\<close>, \<open>PyBaseException\<close> an exception outside \<^verbatim>\<open>Exception\<close>
  (\<^verbatim>\<open>KeyboardInterrupt\<close>, \<^verbatim>\<open>asyncio.CancelledError\<close>).
\<close>

datatype exn =
    ConnectError string string
  | TimeoutException string string
  | HTTPStatusError string string string
  | RequestError string
  | PyException string string
  | PyBaseException string string

type_synonym call_args = "pyval list \<times> (string \<times> pyval) list"

text \<open>
  The two records \<^verbatim>\<open>log_function_call\<close> emits with \<^verbatim>\<open>logger.debug\<close>: the flag tells the
  async wording from the sync one, the string is \<^verbatim>\<open>func.__name__\<close>; \<open>Took\<close> carries the
  measured duration.
\<close>

datatype message =
    Calling bool string call_args
  | Took bool string nat

datatype log_record = Debug string message

text \<open>
  What running a handler leaves behind: the records it logs and the time that passes
  (\<open>Tick n\<close>: the clock read by \<^verbatim>\<open>datetime.now()\<close> advances by \<open>n\<close>).
\<close>

datatype hevent = Log log_record | Tick nat

fun elapsed :: "hevent list \<Rightarrow> nat" where
  "elapsed [] = 0"
| "elapsed (Tick n # t) = n + elapsed t"
| "elapsed (Log r # t) = elapsed t"

text \<open>
  A computation returns a value or raises (\<open>Inl\<close>), and leaves a trace of events.
\<close>

definition ret :: "'a \<Rightarrow> (exn + 'a) \<times> 'e list" where
  "ret x = (Inr x, [])"

definition bind ::
  "(exn + 'a) \<times> 'e list \<Rightarrow> ('a \<Rightarrow> (exn + 'b) \<times> 'e list) \<Rightarrow> (exn + 'b) \<times> 'e list" where
  "bind m f =
     (case m of
        (Inl e, t) \<Rightarrow> (Inl e, t)
      | (Inr x, t) \<Rightarrow> (case f x of (r, t') \<Rightarrow> (r, t @ t')))"

definition lift_exn :: "exn + 'a \<Rightarrow> (exn + 'a) \<times> 'e list" where
  "lift_exn r = (r, [])"

section \<open>Handlers\<close>

text \<open>
  \<^verbatim>\<open>inspect.signature(func).return_annotation\<close> is a string when the annotation was
  written as one (or the module defers its annotations), and otherwise the object the
  annotation evaluates to; \<open>AnnClass\<close> is a class such as \<^verbatim>\<open>str\<close>, \<^verbatim>\<open>dict\<close> or
  \<^verbatim>\<open>inspect.Signature.empty\<close> (no annotation at all). Other annotation objects, such as
  the aliases of \<^verbatim>\<open>typing\<close>, are not modelled.
\<close>

datatype annotation = AnnStr string | AnnClass string

text \<open>
  A function object: \<^verbatim>\<open>__name__\<close>, \<^verbatim>\<open>__module__\<close>, what
  \<^verbatim>\<open>asyncio.iscoroutinefunction\<close> says of it, its return annotation, its \<^verbatim>\<open>__dict__\<close>
  (the attributes set on it), and what a call does (for a coroutine function: what
  awaiting the call does).
\<close>

record handler =
  h_name :: string
  h_module :: string
  is_coroutine :: bool
  return_annotation :: annotation
  attrs :: "(string \<times> pyval) list"
  body :: "call_args \<Rightarrow> (exn + pyval) \<times> hevent list"

text \<open>What a decorator is handed and returns: a function, or some other value.\<close>

datatype pyobj = Fn handler | Val pyval

section \<open>apply\_decorators\<close>

text \<open>
  \<^verbatim>\<open>for deco in reversed(decorators): func = deco(func)\<close>. A decorator may raise, which
  leaves the loop.
\<close>

fun apply_loop :: "('f \<Rightarrow> (exn + 'f) \<times> 'e list) list \<Rightarrow> 'f \<Rightarrow> (exn + 'f) \<times> 'e list" where
  "apply_loop [] func = (Inr func, [])"
| "apply_loop (deco # rest) func =
     (case deco func of
        (Inl e, t) \<Rightarrow> (Inl e, t)
      | (Inr func', t) \<Rightarrow> (case apply_loop rest func' of (r, t') \<Rightarrow> (r, t @ t')))"

definition apply_decorators ::
  "('f \<Rightarrow> (exn + 'f) \<times> 'e list) list \<Rightarrow> 'f \<Rightarrow> (exn + 'f) \<times> 'e list" where
  "apply_decorators decorators func = apply_loop (rev decorators) func"

text \<open>A wrapper that neither raises nor has an effect when it is applied.\<close>

definition pure_deco :: "('f \<Rightarrow> 'f) \<Rightarrow> 'f \<Rightarrow> (exn + 'f) \<times> 'e list" where
  "pure_deco d func = (Inr (d func), [])"

section \<open>log\_function\_call\<close>

text \<open>
  The body shared by \<^verbatim>\<open>async_wrapper\<close> and \<^verbatim>\<open>sync_wrapper\<close>: one record before the
  call, the call, and in the \<^verbatim>\<open>finally\<close> block the record with the duration.
\<close>

definition log_wrapper :: "bool \<Rightarrow> handler \<Rightarrow> call_args \<Rightarrow> (exn + pyval) \<times> hevent list" where
  "log_wrapper is_async func args =
     (let logger = h_module func @ '':'' @ h_name func;
          (r, t) = body func args
      in (r, [Log (Debug logger (Calling is_async (h_name func) args))] @ t @
             [Log (Debug logger (Took is_async (h_name func) (elapsed t)))]))"

text \<open>
  \<^verbatim>\<open>@wraps(func)\<close> gives the wrapper the name, module and \<^verbatim>\<open>__dict__\<close> of \<open>func\<close>, and
  \<^verbatim>\<open>inspect.signature\<close> follows \<^verbatim>\<open>__wrapped__\<close> to its annotations.
\<close>

definition log_function_call :: "handler \<Rightarrow> handler" where
  "log_function_call func =
     (if is_coroutine func then func\<lparr>body := log_wrapper True func\<rparr>
      else func\<lparr>body := log_wrapper False func\<rparr>)"

section \<open>handle\_api\_errors\<close>

fun startswith :: "string \<Rightarrow> string \<Rightarrow> bool" where
  "startswith s [] = True"
| "startswith [] (p # ps) = False"
| "startswith (c # cs) (p # ps) = (c = p \<and> startswith cs ps)"

fun str_contains :: "string \<Rightarrow> string \<Rightarrow> bool" where
  "str_contains needle [] = (needle = [])"
| "str_contains needle (c # cs) = (startswith (c # cs) needle \<or> str_contains needle cs)"

text \<open>
  \<^verbatim>\<open>needle in return_type\<close>: the substring test on a string; a class is not iterable.
\<close>

fun py_in :: "string \<Rightarrow> annotation \<Rightarrow> exn + bool" where
  "py_in needle (AnnStr s) = Inr (str_contains needle s)"
| "py_in needle (AnnClass c) =
     Inl (PyException ''TypeError'' ''argument of type type is not iterable'')"

definition format_error :: "annotation \<Rightarrow> string \<Rightarrow> exn + pyval" where
  "format_error return_type msg =
     (case py_in ''Dict'' return_type of
        Inl e \<Rightarrow> Inl e
      | Inr True \<Rightarrow> Inr (PyDict [(''error'', PyStr msg)])
      | Inr False \<Rightarrow>
          (case py_in ''List'' return_type of
             Inl e \<Rightarrow> Inl e
           | Inr True \<Rightarrow> Inr (PyList [PyDict [(''error'', PyStr msg)]])
           | Inr False \<Rightarrow> Inr (PyStr msg)))"

text \<open>The message of the first \<^verbatim>\<open>except\<close> clause that matches; none does for \<open>PyBaseException\<close>.\<close>

fun error_message :: "exn \<Rightarrow> string option" where
  "error_message (ConnectError m url) =
     Some (''Connection error: Cannot connect to resource at '' @ url)"
| "error_message (TimeoutException m url) =
     Some (''Timeout error: Resource at '' @ url @ '' did not respond in time'')"
| "error_message (HTTPStatusError m status_code reason_phrase) =
     Some (''HTTP error: Server responded with '' @ status_code @ '' - '' @ reason_phrase)"
| "error_message (RequestError m) = Some (''Request error: '' @ m)"
| "error_message (PyException cls m) = Some (''Unexpected error: '' @ m)"
| "error_message (PyBaseException cls m) = None"

text \<open>
  The body shared by \<^verbatim>\<open>async_wrapper\<close> and \<^verbatim>\<open>sync_wrapper\<close> of \<^verbatim>\<open>handle_api_errors\<close>.
  An exception raised by \<^verbatim>\<open>format_error\<close> inside an \<^verbatim>\<open>except\<close> clause leaves the wrapper.
\<close>

definition api_wrapper :: "handler \<Rightarrow> call_args \<Rightarrow> (exn + pyval) \<times> hevent list" where
  "api_wrapper func args =
     (let return_type = return_annotation func in
      case body func args of
        (Inr v, t) \<Rightarrow> (Inr v, t)
      | (Inl e, t) \<Rightarrow>
          (case error_message e of
             None \<Rightarrow> (Inl e, t)
           | Some msg \<Rightarrow> (format_error return_type msg, t)))"

text \<open>
  The coroutine branch returns \<^verbatim>\<open>async_wrapper\<close>; the other branch returns
  \<^verbatim>\<open>sync_wrapper()\<close>, the result of calling the wrapper with no arguments.
\<close>

definition handle_api_errors :: "handler \<Rightarrow> (exn + pyobj) \<times> hevent list" where
  "handle_api_errors func =
     (if is_coroutine func then (Inr (Fn (func\<lparr>body := api_wrapper func\<rparr>)), [])
      else (case api_wrapper func ([], []) of
              (Inl e, t) \<Rightarrow> (Inl e, t)
            | (Inr v, t) \<Rightarrow> (Inr (Val v), t)))"

section \<open>log\_and\_handle\_errors\<close>

text \<open>
  Both wrappers are written for functions, and in this module \<^verbatim>\<open>log_function_call\<close>
  is only ever handed one. Handing either a value that is no function is outside what is
  modelled; it is reported as a \<^verbatim>\<open>TypeError\<close>.
\<close>

fun on_function :: "(handler \<Rightarrow> (exn + pyobj) \<times> 'e list) \<Rightarrow> pyobj \<Rightarrow> (exn + pyobj) \<times> 'e list" where
  "on_function d (Fn func) = d func"
| "on_function d (Val v) = (Inl (PyException ''TypeError'' ''not a function''), [])"

definition log_and_handle_errors :: "pyobj \<Rightarrow> (exn + pyobj) \<times> hevent list" where
  "log_and_handle_errors func =
     apply_decorators
       [on_function handle_api_errors, on_function (ret \<circ> Fn \<circ> log_function_call)] func"

section \<open>The server\<close>

text \<open>
  The FastMCP application is an external collaborator. Of a server the module uses three
  entry points, \<^verbatim>\<open>app.tool(...)\<close>, \<^verbatim>\<open>app.resource(...)\<close> and \<^verbatim>\<open>app.prompt(...)\<close>: each is
  called with the metadata and returns a decorator, which is then applied to the object
  to register. Both calls are recorded in the trace, and either may raise
  (\<open>srv_request\<close>, \<open>srv_apply\<close>), as a server that rejects a registration does.
\<close>

datatype registration =
    ToolReg pyval pyval pyval
  | ResourceReg pyval pyval pyval pyval
  | PromptReg pyval pyval pyval

record server =
  srv_id :: nat
  srv_request :: "registration \<Rightarrow> exn option"
  srv_apply :: "registration \<Rightarrow> pyobj \<Rightarrow> exn option"

datatype revent =
    Ran hevent
  | Requested nat registration
  | Applied nat registration pyobj

definition ran :: "(exn + 'a) \<times> hevent list \<Rightarrow> (exn + 'a) \<times> revent list" where
  "ran m = (fst m, map Ran (snd m))"

definition srv_decorator :: "server \<Rightarrow> registration \<Rightarrow> pyobj \<Rightarrow> (exn + pyobj) \<times> revent list" where
  "srv_decorator app reg obj =
     (case srv_apply app reg obj of
        Some e \<Rightarrow> (Inl e, [Applied (srv_id app) reg obj])
      | None \<Rightarrow> (Inr obj, [Applied (srv_id app) reg obj]))"

definition srv_register ::
  "server \<Rightarrow> registration \<Rightarrow> (exn + (pyobj \<Rightarrow> (exn + pyobj) \<times> revent list)) \<times> revent list" where
  "srv_register app reg =
     (case srv_request app reg of
        Some e \<Rightarrow> (Inl e, [Requested (srv_id app) reg])
      | None \<Rightarrow> (Inr (srv_decorator app reg), [Requested (srv_id app) reg]))"

definition app_tool ::
  "server \<Rightarrow> pyval \<Rightarrow> pyval \<Rightarrow> pyval \<Rightarrow> (exn + (pyobj \<Rightarrow> (exn + pyobj) \<times> revent list)) \<times> revent list" where
  "app_tool app name description annotations = srv_register app (ToolReg name description annotations)"

definition app_resource ::
  "server \<Rightarrow> pyval \<Rightarrow> pyval \<Rightarrow> pyval \<Rightarrow> pyval \<Rightarrow> (exn + (pyobj \<Rightarrow> (exn + pyobj) \<times> revent list)) \<times> revent list" where
  "app_resource app uri name description mime_type =
     srv_register app (ResourceReg uri name description mime_type)"

definition app_prompt ::
  "server \<Rightarrow> pyval \<Rightarrow> pyval \<Rightarrow> pyval \<Rightarrow> (exn + (pyobj \<Rightarrow> (exn + pyobj) \<times> revent list)) \<times> revent list" where
  "app_prompt app name description tags = srv_register app (PromptReg name description tags)"

section \<open>PendingMCPComponents\<close>

text \<open>
  Reading an attribute of a metadata value (\<^verbatim>\<open>component._tool_metadata.name\<close>): an object
  gives the attribute if it has it; a dictionary has its entries under keys, not under
  attributes, and none of the names this module reads is a method of \<^verbatim>\<open>dict\<close>, so the
  access raises \<^verbatim>\<open>AttributeError\<close>, as it does on the other plain values.
\<close>

fun py_getattr :: "pyval \<Rightarrow> string \<Rightarrow> exn + pyval" where
  "py_getattr (PyObj kvs) name =
     (case map_of kvs name of
        Some v \<Rightarrow> Inr v
      | None \<Rightarrow> Inl (PyException ''AttributeError'' name))"
| "py_getattr v name = Inl (PyException ''AttributeError'' name)"

record pending =
  components :: "handler list"
  mcpApp :: "server option"

definition init_pending :: pending where
  "init_pending = \<lparr>components = [], mcpApp = None\<rparr>"

text \<open>
  \<^verbatim>\<open>_process_component\<close>: the keyword arguments are evaluated from left to right, then
  the server's entry point is called, then the decorator that \<^verbatim>\<open>apply_decorators\<close>
  returns is applied to the component. The result is the component when no server is
  bound and \<^verbatim>\<open>None\<close> otherwise.
\<close>

definition process_component :: "pending \<Rightarrow> handler \<Rightarrow> (exn + handler option) \<times> revent list" where
  "process_component self component =
     (case mcpApp self of
        None \<Rightarrow> ret (Some component)
      | Some app \<Rightarrow>
          (case map_of (attrs component) ''_tool_metadata'' of
             Some md \<Rightarrow>
               bind (lift_exn (py_getattr md ''name'')) (\<lambda>name.
               bind (lift_exn (py_getattr md ''description'')) (\<lambda>description.
               bind (lift_exn (py_getattr md ''annotations'')) (\<lambda>annotations.
               bind (app_tool app name description annotations) (\<lambda>deco.
               bind (apply_decorators [deco, ran \<circ> log_and_handle_errors] (Fn component))
                 (\<lambda>_. ret None)))))
           | None \<Rightarrow>
          (case map_of (attrs component) ''_resource_metadata'' of
             Some md \<Rightarrow>
               bind (lift_exn (py_getattr md ''uri'')) (\<lambda>uri.
               bind (lift_exn (py_getattr md ''name'')) (\<lambda>name.
               bind (lift_exn (py_getattr md ''description'')) (\<lambda>description.
               bind (lift_exn (py_getattr md ''mime_type'')) (\<lambda>mime_type.
               bind (app_resource app uri name description mime_type) (\<lambda>deco.
               bind (apply_decorators [deco, ran \<circ> log_and_handle_errors] (Fn component))
                 (\<lambda>_. ret None))))))
           | None \<Rightarrow>
          (case map_of (attrs component) ''_prompt_metadata'' of
             Some md \<Rightarrow>
               bind (lift_exn (py_getattr md ''name'')) (\<lambda>name.
               bind (lift_exn (py_getattr md ''description'')) (\<lambda>description.
               bind (lift_exn (py_getattr md ''tags'')) (\<lambda>tags.
               bind (app_prompt app name description tags) (\<lambda>deco.
               bind (apply_decorators [deco, ran \<circ> log_and_handle_errors] (Fn component))
                 (\<lambda>_. ret None)))))
           | None \<Rightarrow> ret None))))"

text \<open>
  The methods mutate the queue object, also when they raise: each returns its outcome
  with the trace, and the object as it is left.
\<close>

definition add :: "handler \<Rightarrow> pending \<Rightarrow> ((exn + handler) \<times> revent list) \<times> pending" where
  "add func self =
     (case process_component self func of
        (Inl e, t) \<Rightarrow> ((Inl e, t), self)
      | (Inr None, t) \<Rightarrow> ((Inr func, t), self)
      | (Inr (Some processed), t) \<Rightarrow>
          ((Inr func, t), self\<lparr>components := components self @ [func]\<rparr>))"

fun process_loop :: "pending \<Rightarrow> handler list \<Rightarrow> (exn + unit) \<times> revent list" where
  "process_loop self [] = (Inr (), [])"
| "process_loop self (component # rest) =
     (case process_component self component of
        (Inl e, t) \<Rightarrow> (Inl e, t)
      | (Inr processed, t) \<Rightarrow> (case process_loop self rest of (r, t') \<Rightarrow> (r, t @ t')))"

definition process :: "server \<Rightarrow> pending \<Rightarrow> ((exn + unit) \<times> revent list) \<times> pending" where
  "process app self =
     (let self1 = self\<lparr>mcpApp := Some app\<rparr>;
          snapshot = components self1;
          self2 = self1\<lparr>components := []\<rparr>
      in (process_loop self2 snapshot, self2))"

definition get_pending :: "pending \<Rightarrow> handler list" where
  "get_pending self = components self"

section \<open>The declaring decorators\<close>

text \<open>
  \<^verbatim>\<open>PendingMCPComponents._instance\<close> is the class attribute that holds the singleton once
  \<^verbatim>\<open>instance()\<close> has made it.
\<close>

definition instance_q :: "pending option \<Rightarrow> pending \<times> pending option" where
  "instance_q g =
     (case g of
        None \<Rightarrow> (init_pending, Some init_pending)
      | Some self \<Rightarrow> (self, Some self))"

definition add_pending :: "handler \<Rightarrow> pending option \<Rightarrow> ((exn + handler) \<times> revent list) \<times> pending option" where
  "add_pending fn g =
     (case add fn (fst (instance_q g)) of
        ((Inl e, t), self') \<Rightarrow> ((Inl e, t), Some self')
      | ((Inr added, t), self') \<Rightarrow> ((Inr fn, t), Some self'))"

definition py_setattr :: "handler \<Rightarrow> string \<Rightarrow> pyval \<Rightarrow> handler" where
  "py_setattr func name v = func\<lparr>attrs := AList.update name v (attrs func)\<rparr>"

text \<open>The value of \<^verbatim>\<open>x or y\<close>.\<close>

fun py_truthy :: "pyval \<Rightarrow> bool" where
  "py_truthy PyNone = False"
| "py_truthy (PyBool b) = b"
| "py_truthy (PyStr s) = (s \<noteq> [])"
| "py_truthy (PyInt i) = (i \<noteq> 0)"
| "py_truthy (PyList xs) = (xs \<noteq> [])"
| "py_truthy (PyDict kvs) = (kvs \<noteq> [])"
| "py_truthy (PyObj kvs) = True"

definition py_or :: "pyval \<Rightarrow> pyval \<Rightarrow> pyval" where
  "py_or x y = (if py_truthy x then x else y)"

definition tool_metadata ::
  "pyval \<Rightarrow> pyval \<Rightarrow> pyval \<Rightarrow> handler \<Rightarrow> pending option \<Rightarrow> ((exn + handler) \<times> revent list) \<times> pending option" where
  "tool_metadata name description annotations func g =
     add_pending
       (py_setattr func ''_tool_metadata''
          (PyDict [(''name'', name), (''description'', description),
                   (''annotations'', py_or annotations (PyDict []))])) g"

definition resource_metadata ::
  "pyval \<Rightarrow> pyval \<Rightarrow> pyval \<Rightarrow> pyval \<Rightarrow> handler \<Rightarrow> pending option \<Rightarrow> ((exn + handler) \<times> revent list) \<times> pending option" where
  "resource_metadata uri name description mime_type func g =
     add_pending
       (py_setattr func ''_resource_metadata''
          (PyDict [(''uri'', uri), (''name'', name), (''description'', description),
                   (''mime_type'', mime_type)])) g"

definition prompt_metadata ::
  "pyval \<Rightarrow> pyval \<Rightarrow> handler \<Rightarrow> pending option \<Rightarrow> ((exn + handler) \<times> revent list) \<times> pending option" where
  "prompt_metadata name description func g =
     add_pending
       (py_setattr func ''_prompt_metadata''
          (PyDict [(''name'', name), (''description'', description)])) g"

definition custom_route_metadata ::
  "pyval \<Rightarrow> pyval \<Rightarrow> pyval \<Rightarrow> pyval \<Rightarrow> handler \<Rightarrow> pending option \<Rightarrow> ((exn + handler) \<times> revent list) \<times> pending option" where
  "custom_route_metadata path methods name include_in_schema func g =
     add_pending
       (py_setattr func ''_custom_route_metadata''
          (PyDict [(''path'', path), (''methods'', methods), (''name'', name),
                   (''include_in_schema'', include_in_schema)])) g"

section \<open>Sample handlers and servers\<close>

text \<open>A wrapper that tags what it is given and records that it was applied.\<close>

definition probe :: "string \<Rightarrow> string \<Rightarrow> (exn + string) \<times> string list" where
  "probe tag func = (Inr (tag @ ''('' @ func @ '')''), [tag])"

text \<open>\<^verbatim>\<open>def ping() -> str: return "pong"\<close>, a blocking handler.\<close>

definition ping :: handler where
  "ping = \<lparr>h_name = ''ping'', h_module = ''app.modules.client'', is_coroutine = False,
            return_annotation = AnnClass ''str'', attrs = [],
            body = (\<lambda>args. (Inr (PyStr ''pong''), [Tick 1]))\<rparr>"

text \<open>
  \<^verbatim>\<open>async def client_list(...) -> str\<close>, as the tools of \<^verbatim>\<open>app/modules/client.py\<close> are
  declared, here with a body that raises \<^verbatim>\<open>ValueError("boom")\<close>.
\<close>

definition client_list :: handler where
  "client_list = \<lparr>h_name = ''client_list'', h_module = ''app.modules.client'',
                   is_coroutine = True, return_annotation = AnnClass ''str'', attrs = [],
                   body = (\<lambda>args. (Inl (PyException ''ValueError'' ''boom''), [Tick 3]))\<rparr>"

text \<open>
  A suspending handler annotated \<^verbatim>\<open>-> "Dict[str, Any]"\<close> whose request cannot connect.
\<close>

definition client_details :: handler where
  "client_details = \<lparr>h_name = ''client_details'', h_module = ''app.modules.client'',
                      is_coroutine = True, return_annotation = AnnStr ''Dict[str, Any]'',
                      attrs = [],
                      body = (\<lambda>args. (Inl (ConnectError ''All connection attempts failed''
                                                ''http://plex:32400/clients''), [Tick 5]))\<rparr>"

text \<open>A suspending handler that returns, with metadata that exposes attributes.\<close>

definition sessions_tool :: handler where
  "sessions_tool = \<lparr>h_name = ''sessions'', h_module = ''app.modules.sessions'',
                     is_coroutine = True, return_annotation = AnnStr ''str'',
                     attrs = [(''_tool_metadata'',
                               PyObj [(''name'', PyStr ''sessions''),
                                      (''description'', PyStr ''Active sessions''),
                                      (''annotations'', PyNone)])],
                     body = (\<lambda>args. (Inr (PyStr ''[]''), [Tick 2]))\<rparr>"

text \<open>Two servers that accept every registration.\<close>

definition srv1 :: server where
  "srv1 = \<lparr>srv_id = 1, srv_request = (\<lambda>reg. None), srv_apply = (\<lambda>reg obj. None)\<rparr>"

definition srv2 :: server where
  "srv2 = \<lparr>srv_id = 2, srv_request = (\<lambda>reg. None), srv_apply = (\<lambda>reg obj. None)\<rparr>"

text \<open>
  \<^verbatim>\<open>client_list\<close> once \<^verbatim>\<open>@tool_metadata(name=..., description=..., annotations=...)\<close>
  has set its \<^verbatim>\<open>_tool_metadata\<close>, as in \<^verbatim>\<open>app/modules/client.py\<close>.
\<close>

definition list_clients_annotations :: pyval where
  "list_clients_annotations =
     PyObj [(''title'', PyStr ''List Plex Clients''), (''readOnlyHint'', PyBool True)]"

definition declared_client_list :: handler where
  "declared_client_list =
     py_setattr client_list ''_tool_metadata''
       (PyDict [(''name'', PyStr ''list_plex_clients''),
                (''description'', PyStr ''List all Plex clients currently connected to the server''),
                (''annotations'', list_clients_annotations)])"

text \<open>A queue with no server yet, and one bound to \<open>srv1\<close>.\<close>

definition bound1 :: pending where
  "bound1 = \<lparr>components = [], mcpApp = Some srv1\<rparr>"

text \<open>Which of the records of \<^verbatim>\<open>log_function_call\<close> an event is.\<close>

fun is_calling :: "hevent \<Rightarrow> bool" where
  "is_calling (Log (Debug logger (Calling a n args))) = True"
| "is_calling ev = False"

fun is_took :: "hevent \<Rightarrow> bool" where
  "is_took (Log (Debug logger (Took a n d))) = True"
| "is_took ev = False"

section \<open>Evaluation\<close>

lemmas eval_defs = ping_def client_list_def client_details_def sessions_tool_def srv1_def srv2_def
  declared_client_list_def list_clients_annotations_def bound1_def init_pending_def
  handle_api_errors_def api_wrapper_def format_error_def log_and_handle_errors_def
  apply_decorators_def log_function_call_def log_wrapper_def ret_def bind_def lift_exn_def
  ran_def srv_decorator_def srv_register_def app_tool_def app_resource_def app_prompt_def
  process_component_def add_def process_def get_pending_def instance_q_def add_pending_def
  py_setattr_def py_or_def tool_metadata_def resource_metadata_def prompt_metadata_def
  custom_route_metadata_def Let_def

section \<open>The order of composition\<close>

lemma apply_loop_snoc: "apply_loop (ds @ [d]) f = bind (apply_loop ds f) d"
  by (induction ds arbitrary: f) (auto simp: bind_def split: prod.splits sum.splits)

lemma apply_loop_pure: "apply_loop (map pure_deco ds) f = (Inr (fold (\<lambda>d x. d x) ds f), [])"
  by (induction ds arbitrary: f) (auto simp: pure_deco_def)

lemma handle_api_errors_async:
  "is_coroutine H \<Longrightarrow> handle_api_errors H = (Inr (Fn (H\<lparr>body := api_wrapper H\<rparr>)), [])"
  by (simp add: handle_api_errors_def)

lemma handle_api_errors_sync:
  "\<not> is_coroutine H \<Longrightarrow>
   handle_api_errors H =
     (case api_wrapper H ([], []) of (Inl e, t) \<Rightarrow> (Inl e, t) | (Inr v, t) \<Rightarrow> (Inr (Val v), t))"
  by (simp add: handle_api_errors_def)

lemma log_and_handle_errors_unfold:
  "log_and_handle_errors (Fn H) = handle_api_errors (log_function_call H)"
  by (simp add: log_and_handle_errors_def apply_decorators_def ret_def
      split: prod.splits sum.splits)

text \<open>
  Claim C1, as the code has it. \<^verbatim>\<open>apply_decorators\<close> walks the list in reverse, so
  \<^verbatim>\<open>apply_decorators(D1, ..., Dn)(H)\<close> is \<open>D1(D2(...(Dn(H))))\<close>: the first wrapper of the
  list is applied last and is outermost, the last wrapper is applied first and is
  innermost. For two wrappers \<^verbatim>\<open>apply_decorators(A, B)(H)\<close> is \<open>A(B(H))\<close>; accordingly
  \<^verbatim>\<open>log_and_handle_errors(H)\<close> is \<^verbatim>\<open>handle_api_errors(log_function_call(H))\<close>.
\<close>

theorem apply_decorators_first_outermost:
  "apply_decorators [] H = ret H
   \<and> apply_decorators (D # Ds) H = bind (apply_decorators Ds H) D
   \<and> apply_decorators [A, B] H = bind (B H) A
   \<and> apply_decorators (map pure_deco ds) H = (Inr (foldr (\<lambda>d x. d x) ds H), [])
   \<and> log_and_handle_errors (Fn F) = handle_api_errors (log_function_call F)"
proof -
  have nil: "apply_decorators [] H = ret H"
    by (simp add: apply_decorators_def ret_def)
  have cons: "apply_decorators (D # Ds) H = bind (apply_decorators Ds H) D" for D Ds
    by (simp add: apply_decorators_def apply_loop_snoc)
  have "apply_decorators [B] H = B H"
    by (simp add: apply_decorators_def split: prod.splits sum.splits)
  then have two: "apply_decorators [A, B] H = bind (B H) A"
    by (simp add: cons)
  have "apply_loop (map pure_deco (rev ds)) H = (Inr (foldr (\<lambda>d x. d x) ds H), [])"
    unfolding apply_loop_pure by (simp add: foldr_conv_fold)
  then have pure: "apply_decorators (map pure_deco ds) H = (Inr (foldr (\<lambda>d x. d x) ds H), [])"
    by (simp add: apply_decorators_def rev_map)
  from nil cons two pure log_and_handle_errors_unfold show ?thesis by blast
qed

text \<open>
  Claim C1 as stated fails: with two probes, \<^verbatim>\<open>apply_decorators(A, B)(H)\<close> applies \<open>B\<close>
  first and yields \<open>A(B(H))\<close>, where the claim has \<open>B(A(H))\<close>.
\<close>

theorem apply_decorators_order_counterexample:
  "apply_decorators [probe ''A'', probe ''B''] ''H'' = (Inr ''A(B(H))'', [''B'', ''A''])
   \<and> bind (probe ''A'' ''H'') (probe ''B'') = (Inr ''B(A(H))'', [''A'', ''B''])
   \<and> apply_decorators [probe ''A'', probe ''B''] ''H'' \<noteq> bind (probe ''A'' ''H'') (probe ''B'')"
  by (simp add: apply_decorators_def probe_def bind_def)

section \<open>The instrumentation wrapper\<close>

lemma elapsed_append: "elapsed (a @ b) = elapsed a + elapsed b"
  by (induction a rule: elapsed.induct) auto

lemma log_function_call_body:
  "body (log_function_call H) args =
     (fst (body H args),
      Log (Debug (h_module H @ '':'' @ h_name H) (Calling (is_coroutine H) (h_name H) args))
        # snd (body H args)
        @ [Log (Debug (h_module H @ '':'' @ h_name H)
                  (Took (is_coroutine H) (h_name H) (elapsed (snd (body H args)))))])"
  by (simp add: log_function_call_def log_wrapper_def Let_def split: prod.splits)

text \<open>
  Claim C9. An invocation of \<^verbatim>\<open>log_function_call(H)\<close> has the outcome of \<open>H\<close>, whether
  \<open>H\<close> returns or raises, and its trace is the trace of \<open>H\<close> between one record that
  names the handler as \<^verbatim>\<open>module:name\<close> with the call arguments, emitted before \<open>H\<close>
  runs, and one record with the elapsed time of \<open>H\<close>, emitted after it; the wrapper adds
  exactly one record of each kind, and keeps the execution model of \<open>H\<close>.
\<close>

theorem log_function_call_two_records:
  "body (log_function_call H) args =
     (fst (body H args),
      Log (Debug (h_module H @ '':'' @ h_name H) (Calling (is_coroutine H) (h_name H) args))
        # snd (body H args)
        @ [Log (Debug (h_module H @ '':'' @ h_name H)
                  (Took (is_coroutine H) (h_name H) (elapsed (snd (body H args)))))])
   \<and> length (filter is_calling (snd (body (log_function_call H) args)))
       = Suc (length (filter is_calling (snd (body H args))))
   \<and> length (filter is_took (snd (body (log_function_call H) args)))
       = Suc (length (filter is_took (snd (body H args))))
   \<and> is_coroutine (log_function_call H) = is_coroutine H"
proof -
  have "is_coroutine (log_function_call H) = is_coroutine H"
    by (simp add: log_function_call_def)
  then show ?thesis
    unfolding log_function_call_body by simp
qed

section \<open>The error-normalizing wrapper\<close>

lemma startswith_prefix: "startswith s p = prefix p s"
  by (induction s p rule: startswith.induct) auto

lemma str_contains_sublist: "str_contains needle hay = sublist needle hay"
  by (induction hay) (auto simp: startswith_prefix sublist_Cons_right)

lemma format_error_str:
  "format_error (AnnStr s) msg =
     Inr (if str_contains ''Dict'' s then PyDict [(''error'', PyStr msg)]
          else if str_contains ''List'' s then PyList [PyDict [(''error'', PyStr msg)]]
          else PyStr msg)"
  by (simp add: format_error_def)

lemma format_error_class:
  "format_error (AnnClass c) msg =
     Inl (PyException ''TypeError'' ''argument of type type is not iterable'')"
  by (simp add: format_error_def)

lemma format_error_never_status:
  "format_error return_type msg \<noteq> Inr (PyDict [(''status'', PyStr ''error''), (''message'', PyStr m)])"
  by (cases return_type) (simp_all add: format_error_str format_error_class)

lemma error_message_nonempty: "error_message e = Some msg \<Longrightarrow> msg \<noteq> []"
  by (cases e) auto

text \<open>
  With a string annotation, an exception that one of the \<^verbatim>\<open>except\<close> clauses catches
  becomes the payload that \<^verbatim>\<open>format_error\<close> builds, and the wrapper returns.
\<close>

lemma api_wrapper_string_annotation:
  assumes "return_annotation H = AnnStr s"
      and "fst (body H args) = Inl e"
      and "error_message e = Some msg"
  shows "fst (api_wrapper H args) =
           Inr (if str_contains ''Dict'' s then PyDict [(''error'', PyStr msg)]
                else if str_contains ''List'' s then PyList [PyDict [(''error'', PyStr msg)]]
                else PyStr msg)"
  using assms
  by (auto simp: api_wrapper_def Let_def format_error_str split: prod.splits sum.splits)

lemma api_wrapper_returns_unchanged:
  "fst (body H args) = Inr v \<Longrightarrow> api_wrapper H args = body H args"
  by (auto simp: api_wrapper_def Let_def split: prod.splits sum.splits)

lemma log_and_handle_errors_async:
  "is_coroutine H \<Longrightarrow>
   log_and_handle_errors (Fn H) =
     (Inr (Fn ((log_function_call H)\<lparr>body := api_wrapper (log_function_call H)\<rparr>)), [])"
  by (simp add: log_and_handle_errors_def apply_decorators_def handle_api_errors_def
      log_function_call_def ret_def)

text \<open>
  Claim C2, evaluated on the blocking handler \<open>ping\<close>: \<^verbatim>\<open>handle_api_errors(ping)\<close> calls
  the handler while wrapping, with no arguments, and returns the handler's result, the
  string \<^verbatim>\<open>"pong"\<close>, which is no callable; through \<^verbatim>\<open>log_and_handle_errors\<close> the call
  is also logged at wrapping time.
\<close>

theorem handle_api_errors_sync_calls_handler:
  "handle_api_errors ping = (Inr (Val (PyStr ''pong'')), [Tick 1])
   \<and> log_and_handle_errors (Fn ping) =
       (Inr (Val (PyStr ''pong'')),
        [Log (Debug ''app.modules.client:ping'' (Calling False ''ping'' ([], []))),
         Tick 1,
         Log (Debug ''app.modules.client:ping'' (Took False ''ping'' 1))])"
  by (simp add: eval_defs)

text \<open>
  Claim C3, evaluated on the suspending handler \<open>client_list\<close>, annotated \<^verbatim>\<open>-> str\<close>,
  whose body raises \<^verbatim>\<open>ValueError\<close>: the \<^verbatim>\<open>except Exception\<close> clause calls
  \<^verbatim>\<open>format_error\<close>, whose test \<^verbatim>\<open>"Dict" in return_type\<close> raises \<^verbatim>\<open>TypeError\<close> on the
  class, and the wrapped handler raises that instead of returning the message.
\<close>

theorem handle_api_errors_class_annotation_raises:
  "handle_api_errors client_list = (Inr (Fn (client_list\<lparr>body := api_wrapper client_list\<rparr>)), [])
   \<and> api_wrapper client_list ([PyBool True], []) =
       (Inl (PyException ''TypeError'' ''argument of type type is not iterable''), [Tick 3])"
  by (simp add: eval_defs)

text \<open>
  Claim C7, as the code has it. For a suspending handler whose return annotation is a
  string and whose execution raises \<^verbatim>\<open>httpx.ConnectError\<close> for a request to \<open>url\<close>, the
  handler wrapped by \<^verbatim>\<open>log_and_handle_errors\<close> stays a coroutine function and returns,
  instead of raising, the message
  \<^verbatim>\<open>Connection error: Cannot connect to resource at <url>\<close> in the shape
  \<^verbatim>\<open>format_error\<close> selects: \<^verbatim>\<open>{"error": message}\<close> when the annotation contains
  \<^verbatim>\<open>Dict\<close>, \<^verbatim>\<open>[{"error": message}]\<close> when it contains \<^verbatim>\<open>List\<close> and not \<^verbatim>\<open>Dict\<close>,
  and the message itself otherwise.
\<close>

theorem connect_error_payload:
  assumes "is_coroutine H"
      and "return_annotation H = AnnStr s"
      and "fst (body H args) = Inl (ConnectError m url)"
  shows "\<exists>W. fst (log_and_handle_errors (Fn H)) = Inr (Fn W)
           \<and> is_coroutine W
           \<and> fst (body W args) =
               Inr (if str_contains ''Dict'' s
                    then PyDict [(''error'', PyStr (''Connection error: Cannot connect to resource at '' @ url))]
                    else if str_contains ''List'' s
                    then PyList [PyDict [(''error'', PyStr (''Connection error: Cannot connect to resource at '' @ url))]]
                    else PyStr (''Connection error: Cannot connect to resource at '' @ url))"
proof -
  let ?W = "(log_function_call H)\<lparr>body := api_wrapper (log_function_call H)\<rparr>"
  have ann: "return_annotation (log_function_call H) = AnnStr s"
    using assms(2) by (simp add: log_function_call_def)
  have inner: "fst (body (log_function_call H) args) = Inl (ConnectError m url)"
    using assms(3) by (simp add: log_function_call_body)
  have "fst (api_wrapper (log_function_call H) args) =
          format_error (AnnStr s) (''Connection error: Cannot connect to resource at '' @ url)"
    using inner ann by (auto simp: api_wrapper_def Let_def split: prod.splits sum.splits)
  then have "fst (body ?W args) =
          format_error (AnnStr s) (''Connection error: Cannot connect to resource at '' @ url)"
    by simp
  moreover have "is_coroutine ?W"
    using assms(1) by (simp add: log_function_call_def)
  moreover have "fst (log_and_handle_errors (Fn H)) = Inr (Fn ?W)"
    using assms(1) by (simp add: log_and_handle_errors_async)
  ultimately show ?thesis
    unfolding format_error_str by blast
qed

theorem connect_error_payload_witness:
  "\<exists>W. fst (log_and_handle_errors (Fn client_details)) = Inr (Fn W)
       \<and> is_coroutine W
       \<and> fst (body W ([], [])) =
           Inr (PyDict [(''error'',
              PyStr ''Connection error: Cannot connect to resource at http://plex:32400/clients'')])"
  using connect_error_payload [of client_details "''Dict[str, Any]''" "([], [])"
      "''All connection attempts failed''" "''http://plex:32400/clients''"]
  by (simp add: client_details_def)

text \<open>
  Claim C7 as stated fails: the wrapped \<open>client_details\<close>, whose request cannot connect,
  returns \<^verbatim>\<open>{"error": "Connection error: ..."}\<close>, not a mapping with the keys
  \<^verbatim>\<open>status\<close> and \<^verbatim>\<open>message\<close>.
\<close>

theorem connect_error_shape_counterexample:
  "log_and_handle_errors (Fn client_details) =
     (Inr (Fn ((log_function_call client_details)
                 \<lparr>body := api_wrapper (log_function_call client_details)\<rparr>)), [])
   \<and> fst (api_wrapper (log_function_call client_details) ([], [])) =
       Inr (PyDict [(''error'',
              PyStr ''Connection error: Cannot connect to resource at http://plex:32400/clients'')])
   \<and> fst (api_wrapper (log_function_call client_details) ([], [])) \<noteq>
       Inr (PyDict [(''status'', PyStr ''error''),
                    (''message'',
              PyStr ''Connection error: Cannot connect to resource at http://plex:32400/clients'')])"
  by (simp add: eval_defs)

section \<open>The registration queue\<close>

lemma process_unfold:
  "process app self =
     (process_loop \<lparr>components = [], mcpApp = Some app\<rparr> (components self),
      \<lparr>components = [], mcpApp = Some app\<rparr>)"
  by (cases self) (simp add: process_def Let_def)

lemma process_loop_stops:
  assumes "\<forall>p\<in>set pre. \<not> isl (fst (process_component q p))"
      and "fst (process_component q c) = Inl e"
  shows "process_loop q (pre @ c # post) = process_loop q (pre @ [c])
         \<and> fst (process_loop q (pre @ c # post)) = Inl e"
  using assms
proof (induction pre)
  case Nil
  then show ?case by (auto split: prod.splits sum.splits)
next
  case (Cons p pre)
  then show ?case by (auto split: prod.splits sum.splits)
qed

text \<open>
  When no descriptor raises, the loop of \<^verbatim>\<open>process\<close> forwards the snapshot in its
  order: the trace is the traces of the descriptors, one after the other.
\<close>

lemma process_loop_in_order:
  "\<forall>c\<in>set cs. \<not> isl (fst (process_component q c)) \<Longrightarrow>
   process_loop q cs = (Inr (), concat (map (\<lambda>c. snd (process_component q c)) cs))"
  by (induction cs) (auto split: prod.splits sum.splits)

text \<open>While a server is bound, \<^verbatim>\<open>add\<close> appends nothing to the queue.\<close>

lemma add_bound_never_queues:
  "mcpApp self = Some app \<Longrightarrow> snd (add func self) = self"
  by (auto simp: add_def process_component_def bind_def ret_def lift_exn_def
      split: prod.splits sum.splits option.splits)

lemma sessions_tool_forwards:
  "process_component \<lparr>components = [], mcpApp = Some srv1\<rparr> sessions_tool =
     (Inr None,
      [Requested 1 (ToolReg (PyStr ''sessions'') (PyStr ''Active sessions'') PyNone),
       Applied 1 (ToolReg (PyStr ''sessions'') (PyStr ''Active sessions'') PyNone)
         (Fn ((log_function_call sessions_tool)
                \<lparr>body := api_wrapper (log_function_call sessions_tool)\<rparr>))])"
  by (simp add: eval_defs)

lemma declared_client_list_raises:
  "process_component \<lparr>components = [], mcpApp = Some srv1\<rparr> declared_client_list
     = (Inl (PyException ''AttributeError'' ''name''), [])"
  by (simp add: eval_defs)

text \<open>
  Claim C4, evaluated while \<open>srv1\<close> is bound. A route declared with
  \<^verbatim>\<open>custom_route_metadata\<close> matches no branch of \<^verbatim>\<open>_process_component\<close>: nothing is
  forwarded to the server and the descriptor is not queued either. A tool declared with
  \<^verbatim>\<open>tool_metadata\<close> carries a dictionary, of which \<^verbatim>\<open>_process_component\<close> reads the
  attribute \<^verbatim>\<open>name\<close>: the declaration raises \<^verbatim>\<open>AttributeError\<close> before the server is
  called.
\<close>

theorem add_bound_drops_route:
  "custom_route_metadata (PyStr ''/health'') (PyList [PyStr ''GET'']) PyNone (PyBool True)
       client_list (Some bound1)
     = ((Inr (py_setattr client_list ''_custom_route_metadata''
               (PyDict [(''path'', PyStr ''/health''), (''methods'', PyList [PyStr ''GET'']),
                        (''name'', PyNone), (''include_in_schema'', PyBool True)])), []),
        Some bound1)
   \<and> tool_metadata (PyStr ''list_plex_clients'')
         (PyStr ''List all Plex clients currently connected to the server'')
         list_clients_annotations client_list (Some bound1)
     = ((Inl (PyException ''AttributeError'' ''name''), []), Some bound1)"
  by (simp add: eval_defs)

text \<open>
  Claim C5, evaluated on the tool \<open>client_list\<close> declared with \<^verbatim>\<open>tool_metadata\<close> before
  any server is bound: the queue then holds one descriptor; \<^verbatim>\<open>process(srv1)\<close> empties
  the queue and raises \<^verbatim>\<open>AttributeError\<close> on reading \<^verbatim>\<open>_tool_metadata.name\<close>, and its
  trace is empty: the server's tool registration is never called.
\<close>

theorem declared_tool_never_registered:
  "tool_metadata (PyStr ''list_plex_clients'')
         (PyStr ''List all Plex clients currently connected to the server'')
         list_clients_annotations client_list None
     = ((Inr declared_client_list, []),
        Some \<lparr>components = [declared_client_list], mcpApp = None\<rparr>)
   \<and> length (get_pending \<lparr>components = [declared_client_list], mcpApp = None\<rparr>) = 1
   \<and> process srv1 \<lparr>components = [declared_client_list], mcpApp = None\<rparr>
     = ((Inl (PyException ''AttributeError'' ''name''), []),
        \<lparr>components = [], mcpApp = Some srv1\<rparr>)"
  by (simp add: eval_defs)

text \<open>
  Claim C6, as the code has it. Every call of \<^verbatim>\<open>process(app)\<close> stores \<open>app\<close> as the
  bound server, whatever was stored before and whether or not forwarding raises;
  \<^verbatim>\<open>add\<close> leaves the stored server as it is. So a bound server is never cleared, and it
  is replaced by each later call of \<^verbatim>\<open>process\<close>.
\<close>

theorem process_rebinds_server:
  "mcpApp (snd (process app self)) = Some app
   \<and> mcpApp (snd (add func self)) = mcpApp self"
  by (simp add: process_def Let_def add_def split: prod.splits sum.splits option.splits)

text \<open>
  Claim C6 as stated fails: after \<^verbatim>\<open>process(srv1)\<close>, a call \<^verbatim>\<open>process(srv2)\<close> with
  another server leaves \<open>srv2\<close> as the stored server.
\<close>

theorem process_second_server_counterexample:
  "mcpApp (snd (process srv2 (snd (process srv1 init_pending)))) = Some srv2 \<and> srv2 \<noteq> srv1"
proof -
  have "srv_id srv2 \<noteq> srv_id srv1"
    by (simp add: srv1_def srv2_def)
  then have "srv2 \<noteq> srv1"
    by auto
  then show ?thesis
    by (simp add: process_def Let_def)
qed

text \<open>
  Claim C8, evaluated on three tools declared with \<^verbatim>\<open>tool_metadata\<close> before any server
  is bound: they are queued in the order of declaration, and \<^verbatim>\<open>process(srv1)\<close> raises
  \<^verbatim>\<open>AttributeError\<close> on the first of them with an empty trace: none is forwarded.
\<close>

theorem declared_tools_not_forwarded:
  "map h_name (get_pending (the (snd
      (tool_metadata (PyStr ''ping'') (PyStr ''Ping'') PyNone ping (snd
      (tool_metadata (PyStr ''client_details'') (PyStr ''Details'') PyNone client_details (snd
      (tool_metadata (PyStr ''list_plex_clients'') (PyStr ''List'') PyNone client_list None))))))))
     = [''client_list'', ''client_details'', ''ping'']
   \<and> fst (process srv1 (the (snd
      (tool_metadata (PyStr ''ping'') (PyStr ''Ping'') PyNone ping (snd
      (tool_metadata (PyStr ''client_details'') (PyStr ''Details'') PyNone client_details (snd
      (tool_metadata (PyStr ''list_plex_clients'') (PyStr ''List'') PyNone client_list None))))))))
     = (Inl (PyException ''AttributeError'' ''name''), [])"
  by (simp add: eval_defs)

text \<open>
  Claim C10. \<^verbatim>\<open>process(app)\<close> runs its loop over a snapshot, with the queue already
  empty, so the queue is empty afterwards whether or not forwarding raised, and a later
  \<^verbatim>\<open>process\<close> finds nothing to forward. When the descriptors \<open>pre\<close> are forwarded and
  the next one, \<open>c\<close>, raises \<open>e\<close>, then \<^verbatim>\<open>process\<close> raises \<open>e\<close>, and the outcome, the
  trace and the queue are those of a queue that never held the descriptors \<open>post\<close>
  behind \<open>c\<close>: they are neither kept nor registered.
\<close>

theorem process_clears_before_forwarding:
  "process app self =
     (process_loop \<lparr>components = [], mcpApp = Some app\<rparr> (components self),
      \<lparr>components = [], mcpApp = Some app\<rparr>)
   \<and> get_pending (snd (process app self)) = []
   \<and> fst (process app' (snd (process app self))) = (Inr (), [])
   \<and> ((\<forall>p\<in>set pre. \<not> isl (fst (process_component \<lparr>components = [], mcpApp = Some app\<rparr> p)))
        \<and> fst (process_component \<lparr>components = [], mcpApp = Some app\<rparr> c) = Inl e
        \<and> components self = pre @ c # post
      \<longrightarrow> fst (fst (process app self)) = Inl e
          \<and> process app self = process app (self\<lparr>components := pre @ [c]\<rparr>))"
proof -
  have empty: "get_pending (snd (process app self)) = []"
    by (simp add: process_unfold get_pending_def)
  have again: "fst (process app' (snd (process app self))) = (Inr (), [])"
    by (simp add: process_unfold)
  have stop: "fst (fst (process app self)) = Inl e
          \<and> process app self = process app (self\<lparr>components := pre @ [c]\<rparr>)"
    if "\<forall>p\<in>set pre. \<not> isl (fst (process_component \<lparr>components = [], mcpApp = Some app\<rparr> p))"
      and "fst (process_component \<lparr>components = [], mcpApp = Some app\<rparr> c) = Inl e"
      and "components self = pre @ c # post"
  proof -
    from process_loop_stops[OF that(1) that(2), of post]
    have eq: "process_loop \<lparr>components = [], mcpApp = Some app\<rparr> (pre @ c # post) =
              process_loop \<lparr>components = [], mcpApp = Some app\<rparr> (pre @ [c])"
      and raised: "fst (process_loop \<lparr>components = [], mcpApp = Some app\<rparr> (pre @ c # post)) = Inl e"
      by blast+
    have "fst (fst (process app self)) = Inl e"
      unfolding process_unfold that(3) using raised by simp
    moreover have "process app self = process app (self\<lparr>components := pre @ [c]\<rparr>)"
      unfolding process_unfold that(3) using eq by simp
    ultimately show ?thesis by blast
  qed
  from process_unfold empty again stop show ?thesis by blast
qed

theorem process_clears_before_forwarding_witness:
  "fst (fst (process srv1
          \<lparr>components = [sessions_tool, declared_client_list, sessions_tool], mcpApp = None\<rparr>))
     = Inl (PyException ''AttributeError'' ''name'')
   \<and> get_pending (snd (process srv1
          \<lparr>components = [sessions_tool, declared_client_list, sessions_tool], mcpApp = None\<rparr>))
     = []
   \<and> process srv1
          \<lparr>components = [sessions_tool, declared_client_list, sessions_tool], mcpApp = None\<rparr>
     = process srv1 \<lparr>components = [sessions_tool, declared_client_list], mcpApp = None\<rparr>"
proof -
  let ?q = "\<lparr>components = [sessions_tool, declared_client_list, sessions_tool], mcpApp = None\<rparr>"
  have h1: "\<forall>p\<in>set [sessions_tool].
              \<not> isl (fst (process_component \<lparr>components = [], mcpApp = Some srv1\<rparr> p))"
    by (simp add: sessions_tool_forwards)
  have h2: "fst (process_component \<lparr>components = [], mcpApp = Some srv1\<rparr> declared_client_list)
              = Inl (PyException ''AttributeError'' ''name'')"
    by (simp add: declared_client_list_raises)
  have h3: "components ?q = [sessions_tool] @ declared_client_list # [sessions_tool]"
    by simp
  have upd: "?q\<lparr>components := [sessions_tool] @ [declared_client_list]\<rparr>
               = \<lparr>components = [sessions_tool, declared_client_list], mcpApp = None\<rparr>"
    by simp
  from process_clears_before_forwarding [of srv1 ?q srv1 "[sessions_tool]" declared_client_list
      "PyException ''AttributeError'' ''name''" "[sessions_tool]", unfolded upd]
    h1 h2 h3
  show ?thesis by blast
qed

end
